theory Spec2Isabelle
  imports
    Main
    "HOL-Library.AList"
    "HOL-Library.Multiset"
    "HOL-Library.Char_ord"
    "HOL-Library.List_Lexorder"
begin

section \<open>The local task cache (flytekit/core/local\_cache.py)\<close>

subsection \<open>Literals\<close>

text \<open>
  Modelled from the spec: the classes \<open>Literal\<close>, \<open>LiteralCollection\<close> and \<open>LiteralMap\<close> of
  \<open>flytekit.models.literals\<close>, which the cache imports, are not among the sources at hand.
  They are the Structured Value of the specification, a scalar, a collection (an ordered
  sequence) or a mapping (from string keys, unique, to values), any of which may carry a
  precomputed hash, with the attributes that the code reads: a \<open>Literal\<close> has the optional
  attributes \<open>scalar\<close>, \<open>collection\<close>, \<open>map\<close> and \<open>hash\<close>, and the code tests them against \<open>None\<close>.
  A \<open>LiteralCollection\<close> is its list of literals, a \<open>LiteralMap\<close> its dictionary from names to
  literals: a list of pairs in insertion order, whose keys are distinct. A scalar is either
  \<open>generic\<close>, a protobuf \<open>Struct\<close> (its fields in the order in which the message lists them,
  keys distinct), or of another kind; the code looks into neither the values of a Struct nor
  the other kinds of scalar, which are values of a type parameter.
\<close>

datatype 'a scalar = Generic "(string \<times> 'a) list" | Opaque 'a

datatype 'a literal =
  Literal (scalar: "'a scalar option")
          (collection: "'a literal list option")
          (map_lit: "(string \<times> 'a literal) list option")
          (hash: "string option")

type_synonym 'a LiteralMap = "(string \<times> 'a literal) list"

text \<open>
  \<open>_recursive_hash_placement\<close>: the collection test comes first, the map test second, and the
  hash is looked at only in the base case. A dictionary rebuilt key by key from the items of
  another one has the same keys in the same order.
\<close>

fun recursive_hash_placement :: "'a literal \<Rightarrow> 'a literal" where
  "recursive_hash_placement (Literal s c m h) =
     (case c of
        Some literals \<Rightarrow>
          Literal None (Some (map recursive_hash_placement literals)) None None
      | None \<Rightarrow>
         (case m of
            Some items \<Rightarrow>
              Literal None None
                (Some (map (\<lambda>(key, literal). (key, recursive_hash_placement literal)) items))
                None
          | None \<Rightarrow>
             (case h of
                Some d \<Rightarrow> Literal None None None (Some d)
              | None \<Rightarrow> Literal s c m h)))"

subsection \<open>The hasher\<close>

text \<open>
  The objects that the hasher meets. \<open>ProtoJoblibHasher\<close> overrides one method, \<open>save\<close>, of
  joblib's \<open>NumpyHasher\<close>, a pickler: \<open>save\<close> is called on the hashed object and, by the
  pickler's own recursion, on each of its components.
\<close>

datatype 'a pyobj =
    PyNone
  | PyStr string
  | PyType string
  | PyOpaque 'a
  | PyStruct "(string \<times> 'a) list"
  | PyList "'a pyobj list"
  | PyDict "(string \<times> 'a pyobj) list"
  | PyObject string "(string \<times> 'a pyobj) list"

text \<open>
  \<open>ProtoJoblibHasher.save\<close>, over the \<open>save\<close> of the base class. \<open>sorted\<close> on the items of a
  Struct orders the pairs by key: the keys of a protobuf map are distinct, so that no two
  values are ever compared.
\<close>

definition ProtoJoblibHasher_save :: "('a pyobj \<Rightarrow> 'r) \<Rightarrow> 'a pyobj \<Rightarrow> 'r" where
  "ProtoJoblibHasher_save NumpyHasher_save obj =
     NumpyHasher_save
       (case obj of
          PyStruct fields \<Rightarrow>
            PyDict
              [(''rewrite_rule'', PyStr ''google.protobuf.struct_pb2.Struct''),
               (''cls'', PyType ''google.protobuf.struct_pb2.Struct''),
               (''obj'', PyDict (map (\<lambda>(k, v). (k, PyOpaque v)) (sort_key fst fields)))]
        | _ \<Rightarrow> obj)"

text \<open>
  What the base class is given in the course of one \<open>hash\<close>. joblib is a library outside the
  repository; of its hasher this much is used: it pickles an object by calling \<open>self.save\<close> on
  it and on each of its components, so that every object reached is passed through the
  \<open>save\<close> above first. The dictionary that replaces a Struct holds a string, a class and the
  values of the fields, and no Struct on which \<open>save\<close> would act again.
\<close>

fun pickled :: "'a pyobj \<Rightarrow> 'a pyobj" where
  "pickled (PyStruct fields) = ProtoJoblibHasher_save (\<lambda>obj. obj) (PyStruct fields)"
| "pickled (PyList xs) = PyList (map pickled xs)"
| "pickled (PyDict items) = PyDict (map (\<lambda>(k, v). (k, pickled v)) items)"
| "pickled (PyObject cls attrs) = PyObject cls (map (\<lambda>(k, v). (k, pickled v)) attrs)"
| "pickled obj = obj"

text \<open>
  \<open>ProtoJoblibHasher().hash\<close>. The digest that joblib computes from what it pickles is a
  parameter, \<open>NumpyHasher_hash\<close>: the properties below hold for every digest.
\<close>

definition ProtoJoblibHasher_hash :: "('a pyobj \<Rightarrow> string) \<Rightarrow> 'a pyobj \<Rightarrow> string" where
  "ProtoJoblibHasher_hash NumpyHasher_hash obj = NumpyHasher_hash (pickled obj)"

text \<open>A literal as an object with its four attributes.\<close>

fun obj_of_literal :: "'a literal \<Rightarrow> 'a pyobj" where
  "obj_of_literal (Literal s c m h) =
     PyObject ''Literal''
       [(''scalar'',
           (case s of
              None \<Rightarrow> PyNone
            | Some (Generic fields) \<Rightarrow> PyStruct fields
            | Some (Opaque a) \<Rightarrow> PyOpaque a)),
        (''collection'',
           (case c of None \<Rightarrow> PyNone | Some literals \<Rightarrow> PyList (map obj_of_literal literals))),
        (''map'',
           (case m of
              None \<Rightarrow> PyNone
            | Some items \<Rightarrow> PyDict (map (\<lambda>(k, literal). (k, obj_of_literal literal)) items))),
        (''hash'', (case h of None \<Rightarrow> PyNone | Some d \<Rightarrow> PyStr d))]"

subsection \<open>The cache key\<close>

text \<open>The first loop of \<open>_calculate_cache_key\<close>.\<close>

definition literal_map_overridden :: "'a LiteralMap \<Rightarrow> 'a LiteralMap" where
  "literal_map_overridden input_literal_map =
     map (\<lambda>(key, literal). (key, recursive_hash_placement literal)) input_literal_map"

definition calculate_cache_key ::
  "('a pyobj \<Rightarrow> string) \<Rightarrow> string \<Rightarrow> string \<Rightarrow> 'a LiteralMap \<Rightarrow> string" where
  "calculate_cache_key NumpyHasher_hash task_name cache_version input_literal_map =
     (let hashed_inputs =
            ProtoJoblibHasher_hash NumpyHasher_hash
              (PyDict (map (\<lambda>(key, literal). (key, obj_of_literal literal))
                         (literal_map_overridden input_literal_map)))
      in task_name @ ''-'' @ cache_version @ ''-'' @ hashed_inputs)"

subsection \<open>The store\<close>

datatype error =
    AttributeError
  | UnboundLocalError
  | KeyboardInterrupt
  | SystemExit int
  | FlyteUserException string
  | FileNotFoundError string

text \<open>
  The class \<open>LocalTaskCache\<close>: the attribute \<open>_cache\<close> is declared and not assigned, so that it
  is unbound until \<open>initialize\<close> opens the cache at \<open>CACHE_LOCATION\<close>; \<open>disk\<close> is what that
  directory holds, a key-value store that outlives the cache object. Reading \<open>_cache\<close> while
  it is unbound raises \<open>AttributeError\<close>.
\<close>

record 'a LocalTaskCache =
  disk :: "string \<rightharpoonup> 'a LiteralMap"
  cache_bound :: bool
  initialized :: bool

definition LocalTaskCache_initialize :: "'a LocalTaskCache \<Rightarrow> 'a LocalTaskCache" where
  "LocalTaskCache_initialize c = c\<lparr>cache_bound := True, initialized := True\<rparr>"

definition LocalTaskCache_clear :: "'a LocalTaskCache \<Rightarrow> error + 'a LocalTaskCache" where
  "LocalTaskCache_clear c =
     (let c1 = (if \<not> initialized c then LocalTaskCache_initialize c else c)
      in if cache_bound c1 then Inr (c1\<lparr>disk := Map.empty\<rparr>) else Inl AttributeError)"

text \<open>\<open>Cache.get\<close> of diskcache returns \<open>None\<close> for a key that the store does not hold.\<close>

definition LocalTaskCache_get ::
  "('a pyobj \<Rightarrow> string) \<Rightarrow> string \<Rightarrow> string \<Rightarrow> 'a LiteralMap \<Rightarrow> 'a LocalTaskCache
     \<Rightarrow> error + ('a LiteralMap option \<times> 'a LocalTaskCache)" where
  "LocalTaskCache_get NumpyHasher_hash task_name cache_version input_literal_map c =
     (let c1 = (if \<not> initialized c then LocalTaskCache_initialize c else c)
      in if cache_bound c1
         then Inr (disk c1 (calculate_cache_key NumpyHasher_hash task_name cache_version
                              input_literal_map), c1)
         else Inl AttributeError)"

text \<open>\<open>Cache.add\<close> of diskcache stores the value only if the store does not hold the key.\<close>

definition Cache_add ::
  "string \<Rightarrow> 'a LiteralMap \<Rightarrow> (string \<rightharpoonup> 'a LiteralMap) \<Rightarrow> (string \<rightharpoonup> 'a LiteralMap)" where
  "Cache_add key v d = (case d key of None \<Rightarrow> d(key \<mapsto> v) | Some _ \<Rightarrow> d)"

definition LocalTaskCache_set ::
  "('a pyobj \<Rightarrow> string) \<Rightarrow> string \<Rightarrow> string \<Rightarrow> 'a LiteralMap \<Rightarrow> 'a LiteralMap
     \<Rightarrow> 'a LocalTaskCache \<Rightarrow> error + 'a LocalTaskCache" where
  "LocalTaskCache_set NumpyHasher_hash task_name cache_version input_literal_map v c =
     (let c1 = (if \<not> initialized c then LocalTaskCache_initialize c else c)
      in if cache_bound c1
         then Inr (c1\<lparr>disk :=
                        Cache_add (calculate_cache_key NumpyHasher_hash task_name cache_version
                                     input_literal_map) v (disk c1)\<rparr>)
         else Inl AttributeError)"

text \<open>
  The states that the class can be in: \<open>_initialized\<close> is set by \<open>initialize\<close> alone, which
  binds \<open>_cache\<close> in the same call.
\<close>

definition cache_ok :: "'a LocalTaskCache \<Rightarrow> bool" where
  "cache_ok c = (if initialized c then cache_bound c else True)"

definition fresh_cache :: "(string \<rightharpoonup> 'a LiteralMap) \<Rightarrow> 'a LocalTaskCache" where
  "fresh_cache d = \<lparr>disk = d, cache_bound = False, initialized = False\<rparr>"

subsection \<open>Literals that differ where the key does not look\<close>




section \<open>The agent executor (flytekit/extend/backend/mixins.py)\<close>

text \<open>
  The mixin runs one task on an agent: \<open>execute\<close> calls \<open>_create\<close>, then \<open>_get\<close> unless the
  agent has answered with a resource already, and \<open>signal_handler\<close> is what \<open>_create\<close> installs
  for the interrupt signal. The agent, the type engine, the file access and the signals are
  not part of the mixin: what they answer in one run is a parameter of that run, and what
  the mixin does to them is recorded. The serialisation of the task, the look-up of the
  agent in the registry, the gRPC context and the progress bar are left out.
\<close>

subsection \<open>Responses of the agent\<close>

text \<open>
  Of the values of the agent's \<open>State\<close> the code names \<open>RUNNING\<close> and \<open>SUCCEEDED\<close>. Which
  states are terminal is decided by \<open>is_terminal_state\<close> of \<open>flytekit.extend.backend.utils\<close>,
  which is not among the sources at hand: it is a parameter of the execution below.
\<close>

datatype state = RUNNING | SUCCEEDED | OtherState nat

record 'l Resource =
  state :: state
  outputs :: "(string \<times> 'l) list"
  message :: string
  log_links :: "(string \<times> string) list"

text \<open>\<open>create_resource\<close> is \<open>None\<close> when \<open>res.HasField("resource")\<close> is false.\<close>

record 'l CreateTaskResponse =
  create_resource :: "'l Resource option"
  resource_meta :: string

record 'l GetTaskResponse =
  resource :: "'l Resource"

subsection \<open>The execution and its world\<close>

text \<open>
  The values of a keyword dictionary: what the caller passed, and the literals that
  \<open>_create\<close> stores in their place.
\<close>

datatype ('n, 'l) pyval = Native 'n | Lit 'l

text \<open>What the executor does to its collaborators, in the order in which it does it.\<close>

datatype 'l event =
    PutData string string
  | GetData string string
  | AgentCreate string "(string \<times> 'l) list"
  | AgentGet string
  | AgentDelete string
  | Sleep nat
  | Await string
  | PrintState state string
  | PrintLink string string

text \<open>
  What one call of \<open>execute\<close> reads from its surroundings: the task (its name, the outputs of
  its interface, whether it is a \<open>PythonFunctionTask\<close>), the type engine (\<open>to_literal\<close> for the
  input named \<open>k\<close>, with the lookup of its type in the interface), the paths that the file
  access hands out, and the agent: whether it is asynchronous, what it answers to \<open>create\<close>,
  and what it answers to the \<open>i\<close>-th \<open>get\<close>, counted from 0. \<open>sigints i\<close> is the number of
  interrupt signals that arrive during the \<open>i\<close>-th sleep of the poll loop.
\<close>

record ('n, 'l) execution =
  entity_name :: string
  interface_outputs :: "string list"
  is_python_function_task :: bool
  to_literal :: "string \<Rightarrow> ('n, 'l) pyval \<Rightarrow> error + 'l"
  output_prefix :: string
  local_inputs_file :: string
  local_outputs_file :: string
  asynchronous :: bool
  create_response :: "'l CreateTaskResponse"
  get_response :: "nat \<Rightarrow> 'l GetTaskResponse"
  is_terminal_state :: "state \<Rightarrow> bool"
  sigints :: "nat \<Rightarrow> nat"

text \<open>
  What the call changes: the dictionaries, by address, since \<open>_create\<close> writes into a
  dictionary that its caller holds; the files, local and remote, by path; the events so far;
  \<open>self._clean_up_task\<close>, the handle of the delete that was scheduled, if any; and the handle
  bound in the handler installed for \<open>SIGINT\<close>, if any.
\<close>

record ('n, 'l) world =
  heap :: "nat \<rightharpoonup> (string \<times> ('n, 'l) pyval) list"
  next_addr :: nat
  files :: "string \<rightharpoonup> (string \<times> 'l) list"
  events :: "'l event list"
  clean_up_task :: "string option"
  sigint_handler :: "string option"

definition emit :: "'l event list \<Rightarrow> ('n, 'l) world \<Rightarrow> ('n, 'l) world" where
  "emit es w = w\<lparr>events := events w @ es\<rparr>"

definition dict_at :: "('n, 'l) world \<Rightarrow> nat \<Rightarrow> (string \<times> ('n, 'l) pyval) list" where
  "dict_at w a = (case heap w a of Some d \<Rightarrow> d | None \<Rightarrow> [])"

text \<open>The dictionary display \<open>{}\<close>: a new, empty dictionary.\<close>

definition new_dict :: "('n, 'l) world \<Rightarrow> nat \<times> ('n, 'l) world" where
  "new_dict w =
     (next_addr w, w\<lparr>heap := (heap w)(next_addr w \<mapsto> []), next_addr := Suc (next_addr w)\<rparr>)"

text \<open>\<open>d[k] = v\<close> on the dictionary at an address.\<close>

definition setitem ::
  "nat \<Rightarrow> string \<Rightarrow> ('n, 'l) pyval \<Rightarrow> ('n, 'l) world \<Rightarrow> ('n, 'l) world" where
  "setitem a k v w = w\<lparr>heap := (heap w)(a \<mapsto> AList.update k v (dict_at w a))\<rparr>"

subsection \<open>\<open>_create\<close>\<close>

text \<open>
  The loop \<open>for k, v in inputs.items(): literals[k] = to_literal(v)\<close>, over the items that the
  loop has still to visit; \<open>literals\<close> is the address that the name is bound to.
\<close>

fun convert_inputs ::
  "('n, 'l) execution \<Rightarrow> nat \<Rightarrow> (string \<times> ('n, 'l) pyval) list \<Rightarrow> ('n, 'l) world
     \<Rightarrow> (error + unit) \<times> ('n, 'l) world" where
  "convert_inputs env literals [] w = (Inr (), w)"
| "convert_inputs env literals ((k, v) # rest) w =
     (case to_literal env k v of
        Inl e \<Rightarrow> (Inl e, w)
      | Inr l \<Rightarrow> convert_inputs env literals rest (setitem literals k (Lit l) w))"

text \<open>\<open>LiteralMap(literals)\<close>: the literals of the dictionary.\<close>

fun LiteralMap_of :: "(string \<times> ('n, 'l) pyval) list \<Rightarrow> (string \<times> 'l) list" where
  "LiteralMap_of [] = []"
| "LiteralMap_of ((k, Lit l) # rest) = (k, l) # LiteralMap_of rest"
| "LiteralMap_of ((k, Native n) # rest) = LiteralMap_of rest"

text \<open>
  \<open>inputs\<close> is an address or \<open>None\<close>, the default. \<open>inputs or {}\<close> is \<open>inputs\<close> itself unless it
  is \<open>None\<close> or empty; \<open>inputs.items()\<close> raises on \<open>None\<close>.
\<close>

definition Mixin_create ::
  "('n, 'l) execution \<Rightarrow> nat option \<Rightarrow> ('n, 'l) world
     \<Rightarrow> (error + 'l CreateTaskResponse) \<times> ('n, 'l) world" where
  "Mixin_create env inputs w =
     (let (literals, w1) =
            (case inputs of
               None \<Rightarrow> new_dict w
             | Some a \<Rightarrow> if dict_at w a \<noteq> [] then (a, w) else new_dict w)
      in case inputs of
           None \<Rightarrow> (Inl AttributeError, w1)
         | Some a \<Rightarrow>
            (case convert_inputs env literals (dict_at w1 a) w1 of
               (Inl e, w2) \<Rightarrow> (Inl e, w2)
             | (Inr _, w2) \<Rightarrow>
                (let literal_map = LiteralMap_of (dict_at w2 literals);
                     w3 = (if is_python_function_task env
                           then emit [PutData (local_inputs_file env)
                                        (output_prefix env @ ''/inputs.pb'')]
                                  (w2\<lparr>files := (files w2)
                                         (local_inputs_file env \<mapsto> literal_map,
                                          output_prefix env @ ''/inputs.pb'' \<mapsto> literal_map)\<rparr>)
                           else w2);
                     w4 = emit [AgentCreate (output_prefix env) literal_map] w3;
                     res = create_response env
                 in (Inr res, w4\<lparr>sigint_handler := Some (resource_meta res)\<rparr>))))"

subsection \<open>\<open>signal_handler\<close>\<close>

text \<open>
  \<open>AgentDelete\<close> is the call of \<open>async_delete\<close>, whose coroutine \<open>asyncio.create_task\<close>
  schedules, or of \<open>delete\<close>. \<open>sys.exit(1)\<close> raises \<open>SystemExit\<close>.
\<close>

definition signal_handler ::
  "('n, 'l) execution \<Rightarrow> string \<Rightarrow> ('n, 'l) world \<Rightarrow> (error + unit) \<times> ('n, 'l) world" where
  "signal_handler env meta w =
     (if asynchronous env
      then (case clean_up_task w of
              None \<Rightarrow> (Inr (), emit [AgentDelete meta] (w\<lparr>clean_up_task := Some meta\<rparr>))
            | Some _ \<Rightarrow> (Inr (), w))
      else (Inl (SystemExit 1), emit [AgentDelete meta] w))"

text \<open>
  The arrival of \<open>n\<close> interrupt signals, one after the other: each runs the installed handler,
  and Python's own, which raises \<open>KeyboardInterrupt\<close>, if none is installed.
\<close>

fun deliver ::
  "('n, 'l) execution \<Rightarrow> nat \<Rightarrow> ('n, 'l) world \<Rightarrow> (error + unit) \<times> ('n, 'l) world" where
  "deliver env 0 w = (Inr (), w)"
| "deliver env (Suc n) w =
     (case sigint_handler w of
        None \<Rightarrow> (Inl KeyboardInterrupt, w)
      | Some meta \<Rightarrow>
         (case signal_handler env meta w of
            (Inl e, w') \<Rightarrow> (Inl e, w')
          | (Inr _, w') \<Rightarrow> deliver env n w'))"

subsection \<open>\<open>_get\<close>\<close>

text \<open>The two kinds of line printed after the loop.\<close>

definition report :: "'l GetTaskResponse \<Rightarrow> 'l event list" where
  "report res =
     PrintState (state (resource res)) (message (resource res))
       # map (\<lambda>(name, uri). PrintLink name uri) (log_links (resource res))"

text \<open>
  The loop \<open>while not is_terminal_state(state)\<close>, before its \<open>i\<close>-th round, with the values of
  \<open>state\<close> and of \<open>res\<close>, which is unbound before the first round. The loop need not end: the
  value is \<open>None\<close> if it does not.
\<close>

partial_function (option) poll ::
  "('n, 'l) execution \<Rightarrow> string \<Rightarrow> nat \<Rightarrow> state \<Rightarrow> 'l GetTaskResponse option
     \<Rightarrow> ('n, 'l) world \<Rightarrow> ((error + 'l GetTaskResponse) \<times> ('n, 'l) world) option" where
  "poll env meta i st res w =
     (if is_terminal_state env st
      then (case res of
              None \<Rightarrow> Some (Inl UnboundLocalError, w)
            | Some r \<Rightarrow> Some (Inr r, emit (report r) w))
      else (case deliver env (sigints env i) (emit [Sleep 1] w) of
              (Inl e, w1) \<Rightarrow> Some (Inl e, w1)
            | (Inr _, w1) \<Rightarrow>
               (let r = get_response env i; w2 = emit [AgentGet meta] w1
                in if asynchronous env
                   then (case clean_up_task w2 of
                           Some t \<Rightarrow> Some (Inl (SystemExit 1), emit [Await t] w2)
                         | None \<Rightarrow> poll env meta (Suc i) (state (resource r)) (Some r) w2)
                   else poll env meta (Suc i) (state (resource r)) (Some r) w2)))"

definition Mixin_get ::
  "('n, 'l) execution \<Rightarrow> string \<Rightarrow> ('n, 'l) world
     \<Rightarrow> ((error + 'l GetTaskResponse) \<times> ('n, 'l) world) option" where
  "Mixin_get env meta w = poll env meta 0 RUNNING None w"

subsection \<open>\<open>execute\<close>\<close>

text \<open>\<open>kwargs\<close> is the address of the dictionary of the keyword arguments.\<close>

definition Mixin_execute ::
  "('n, 'l) execution \<Rightarrow> nat \<Rightarrow> ('n, 'l) world
     \<Rightarrow> ((error + (string \<times> 'l) list) \<times> ('n, 'l) world) option" where
  "Mixin_execute env kwargs w =
     (case Mixin_create env (Some kwargs) w of
        (Inl e, w1) \<Rightarrow> Some (Inl e, w1)
      | (Inr res, w1) \<Rightarrow>
         (case create_resource res of
            Some r \<Rightarrow>
              if state r \<noteq> SUCCEEDED
              then Some (Inl (FlyteUserException
                                (''Failed to run the task '' @ entity_name env)), w1)
              else Some (Inr (outputs r), w1)
          | None \<Rightarrow>
             (case Mixin_get env (resource_meta res) w1 of
                None \<Rightarrow> None
              | Some (Inl e, w2) \<Rightarrow> Some (Inl e, w2)
              | Some (Inr res2, w2) \<Rightarrow>
                 if state (resource res2) \<noteq> SUCCEEDED
                 then Some (Inl (FlyteUserException
                                   (''Failed to run the task '' @ entity_name env)), w2)
                 else if interface_outputs env \<noteq> [] \<and> length (outputs (resource res2)) = 0
                 then (let remote = output_prefix env @ ''/output/outputs.pb'';
                           w3 = emit [GetData remote (local_outputs_file env)] w2
                       in case files w3 remote of
                            None \<Rightarrow> Some (Inl (FileNotFoundError remote), w3)
                          | Some output_proto \<Rightarrow>
                              Some (Inr output_proto,
                                    w3\<lparr>files := (files w3)
                                           (local_outputs_file env \<mapsto> output_proto)\<rparr>))
                 else Some (Inr (outputs (resource res2)), w2))))"

text \<open>The reads of remote data among the events of a world.\<close>

fun is_GetData :: "'l event \<Rightarrow> bool" where
  "is_GetData (GetData remote local) = True"
| "is_GetData _ = False"

definition fetched :: "('n, 'l) world \<Rightarrow> 'l event list" where
  "fetched w = filter is_GetData (events w)"

subsection \<open>One execution\<close>

text \<open>
  An asynchronous agent that answers \<open>create\<close> with a handle, two polls with \<open>RUNNING\<close> and
  the third with \<open>SUCCEEDED\<close> and no output literals, for a task that declares two outputs,
  which lie at the staging path.
\<close>

definition example_execution :: "(int, int) execution" where
  "example_execution =
     \<lparr>entity_name = ''add_numbers'', interface_outputs = [''o0'', ''o1''],
      is_python_function_task = False,
      to_literal = (\<lambda>k v. Inr (case v of Native n \<Rightarrow> n | Lit l \<Rightarrow> l)),
      output_prefix = ''s3://bucket/x'', local_inputs_file = ''/tmp/in'',
      local_outputs_file = ''/tmp/out'',
      asynchronous = True,
      create_response = \<lparr>create_resource = None, resource_meta = ''job''\<rparr>,
      get_response =
        (\<lambda>i. \<lparr>resource = \<lparr>state = (if i < 2 then RUNNING else SUCCEEDED), outputs = [],
                              message = ''done'', log_links = []\<rparr>\<rparr>),
      is_terminal_state = (\<lambda>s. s \<noteq> RUNNING),
      sigints = (\<lambda>i. 0)\<rparr>"

definition example_world :: "(int, int) world" where
  "example_world =
     \<lparr>heap = [0 \<mapsto> [(''x'', Native 3), (''y'', Native 4)]], next_addr = 1,
      files = [''s3://bucket/x/output/outputs.pb'' \<mapsto> [(''o0'', 7), (''o1'', 8)]],
      events = [], clean_up_task = None, sigint_handler = None\<rparr>"

text \<open>The world after \<open>_create\<close>, and after the poll loop.\<close>

definition example_created :: "(int, int) world" where
  "example_created =
     example_world
       \<lparr>heap := [0 \<mapsto> [(''x'', Lit 3), (''y'', Lit 4)]],
        events := [AgentCreate ''s3://bucket/x'' [(''x'', 3), (''y'', 4)]],
        sigint_handler := Some ''job''\<rparr>"

definition failed_resource :: "int Resource" where
  "failed_resource =
     \<lparr>state = OtherState 1, outputs = [(''o0'', 0)], message = ''failed'', log_links = []\<rparr>"

definition example_polled :: "(int, int) world" where
  "example_polled =
     emit [Sleep 1, AgentGet ''job'', Sleep 1, AgentGet ''job'', Sleep 1, AgentGet ''job'',
           PrintState SUCCEEDED ''done''] example_created"

text \<open>
  A hasher to run the cache with: it writes out what it is given, the fields of a Struct in
  the order in which it finds them.
\<close>

fun example_hash :: "string pyobj \<Rightarrow> string" where
  "example_hash PyNone = ''None''"
| "example_hash (PyStr s) = s"
| "example_hash (PyType s) = s"
| "example_hash (PyOpaque a) = a"
| "example_hash (PyStruct fs) = concat (map (\<lambda>(k, v). k @ '':'' @ v @ '','') fs)"
| "example_hash (PyList xs) = concat (map example_hash xs)"
| "example_hash (PyDict items) = concat (map (\<lambda>(k, v). k @ '':'' @ example_hash v @ '','') items)"
| "example_hash (PyObject cls attrs) =
     cls @ concat (map (\<lambda>(k, v). k @ '':'' @ example_hash v @ '','') attrs)"

definition example_inputs :: "string LiteralMap" where
  "example_inputs =
     [(''x'', Literal (Some (Opaque ''3'')) None None None),
      (''y'', Literal (Some (Opaque ''4'')) None None None)]"

definition example_outputs :: "string LiteralMap" where
  "example_outputs = [(''o0'', Literal (Some (Opaque ''7'')) None None None)]"

section \<open>Properties of the cache\<close>

subsection \<open>Lists related member by member\<close>



subsection \<open>Hash placement\<close>





subsection \<open>The order of the fields of a Struct\<close>









subsection \<open>The store\<close>

lemma set_result:
  "cache_ok c \<Longrightarrow>
   LocalTaskCache_set H t ver m v c =
     Inr \<lparr>disk = Cache_add (calculate_cache_key H t ver m) v (disk c),
          cache_bound = True, initialized = True\<rparr>"
  by (cases c) (auto simp: LocalTaskCache_set_def LocalTaskCache_initialize_def cache_ok_def Let_def)

lemma get_result:
  "cache_ok c \<Longrightarrow>
   LocalTaskCache_get H t ver m c =
     Inr (disk c (calculate_cache_key H t ver m),
          \<lparr>disk = disk c, cache_bound = True, initialized = True\<rparr>)"
  by (cases c) (auto simp: LocalTaskCache_get_def LocalTaskCache_initialize_def cache_ok_def Let_def)

lemma clear_result:
  "cache_ok c \<Longrightarrow>
   LocalTaskCache_clear c = Inr \<lparr>disk = Map.empty, cache_bound = True, initialized = True\<rparr>"
  by (cases c) (auto simp: LocalTaskCache_clear_def LocalTaskCache_initialize_def cache_ok_def Let_def)

lemma cache_ok_opened: "cache_ok \<lparr>disk = d, cache_bound = True, initialized = True\<rparr>"
  by (simp add: cache_ok_def)

lemma cache_ok_fresh: "cache_ok (fresh_cache d)"
  by (simp add: cache_ok_def fresh_cache_def)

lemma disk_fresh: "disk (fresh_cache d) = d"
  by (simp add: fresh_cache_def)

lemma Cache_add_twice: "Cache_add k v (Cache_add k w d) = Cache_add k w d"
  by (simp add: Cache_add_def split: option.splits)

lemma Cache_add_lookup: "Cache_add k v d k = Some (case d k of None \<Rightarrow> v | Some u \<Rightarrow> u)"
  by (simp add: Cache_add_def split: option.splits)

lemma Cache_add_present: "d k = Some u \<Longrightarrow> Cache_add k v d = d"
  by (simp add: Cache_add_def)

text \<open>
  C6. From any state of the class, \<open>set\<close> twice with the same arguments raises nothing; the
  second \<open>set\<close> leaves the state as the first left it, as does any later \<open>set\<close> to this key
  with whatever value; and a \<open>get\<close> after them returns the value \<open>v\<close> if the store did not hold
  the key before, and otherwise the value that it held, which no \<open>set\<close> has overwritten.
\<close>

theorem set_twice_then_get:
  assumes "cache_ok c"
  shows "\<exists>c1. LocalTaskCache_set H t ver m v c = Inr c1 \<and>
              LocalTaskCache_set H t ver m v c1 = Inr c1 \<and>
              (disk c (calculate_cache_key H t ver m) = None \<longrightarrow>
                 LocalTaskCache_get H t ver m c1 = Inr (Some v, c1)) \<and>
              (\<forall>u. disk c (calculate_cache_key H t ver m) = Some u \<longrightarrow>
                 disk c1 = disk c \<and> LocalTaskCache_get H t ver m c1 = Inr (Some u, c1)) \<and>
              (\<forall>w. LocalTaskCache_set H t ver m w c1 = Inr c1)"
proof -
  let ?k = "calculate_cache_key H t ver m"
  let ?c1 = "\<lparr>disk = Cache_add ?k v (disk c), cache_bound = True, initialized = True\<rparr>"
  have 1: "LocalTaskCache_set H t ver m v c = Inr ?c1"
    using assms by (rule set_result)
  have 2: "LocalTaskCache_set H t ver m w ?c1 = Inr ?c1" for w
    by (simp add: set_result [OF cache_ok_opened] Cache_add_twice)
  have 3: "LocalTaskCache_get H t ver m ?c1 =
             Inr (Some (case disk c ?k of None \<Rightarrow> v | Some u \<Rightarrow> u), ?c1)"
    by (simp add: get_result [OF cache_ok_opened] Cache_add_lookup)
  have 4: "disk ?c1 = disk c" if "disk c ?k = Some u" for u
    using that by (simp add: Cache_add_present)
  show ?thesis
    using 1 2 3 4 by (intro exI [of _ ?c1]) auto
qed

text \<open>
  The theorem on a class that has not been initialised, over an empty store and over a store
  that holds the key already.
\<close>

theorem set_twice_then_get_witness:
  "cache_ok (fresh_cache Map.empty :: string LocalTaskCache) \<and>
   (\<exists>c1. LocalTaskCache_set example_hash ''add_numbers'' ''1'' example_inputs example_outputs
            (fresh_cache Map.empty) = Inr c1 \<and>
         LocalTaskCache_set example_hash ''add_numbers'' ''1'' example_inputs example_outputs c1
            = Inr c1 \<and>
         LocalTaskCache_get example_hash ''add_numbers'' ''1'' example_inputs c1
            = Inr (Some example_outputs, c1)) \<and>
   cache_ok (fresh_cache
       [calculate_cache_key example_hash ''add_numbers'' ''1'' example_inputs \<mapsto> []]) \<and>
   (\<exists>c1. LocalTaskCache_set example_hash ''add_numbers'' ''1'' example_inputs example_outputs
            (fresh_cache
               [calculate_cache_key example_hash ''add_numbers'' ''1'' example_inputs \<mapsto> []])
            = Inr c1 \<and>
         LocalTaskCache_get example_hash ''add_numbers'' ''1'' example_inputs c1
            = Inr (Some [], c1))"
proof -
  let ?k = "calculate_cache_key example_hash ''add_numbers'' ''1'' example_inputs"
  have a: "cache_ok (fresh_cache Map.empty :: string LocalTaskCache)"
    by (rule cache_ok_fresh)
  have b: "cache_ok (fresh_cache [?k \<mapsto> []])"
    by (rule cache_ok_fresh)
  have "\<exists>c1. LocalTaskCache_set example_hash ''add_numbers'' ''1'' example_inputs example_outputs
            (fresh_cache Map.empty) = Inr c1 \<and>
         LocalTaskCache_set example_hash ''add_numbers'' ''1'' example_inputs example_outputs c1
            = Inr c1 \<and>
         LocalTaskCache_get example_hash ''add_numbers'' ''1'' example_inputs c1
            = Inr (Some example_outputs, c1)"
    using set_twice_then_get [OF a, of example_hash "''add_numbers''" "''1''" example_inputs
                                example_outputs]
    by (auto simp: disk_fresh)
  moreover have "\<exists>c1. LocalTaskCache_set example_hash ''add_numbers'' ''1'' example_inputs
            example_outputs (fresh_cache [?k \<mapsto> []]) = Inr c1 \<and>
         LocalTaskCache_get example_hash ''add_numbers'' ''1'' example_inputs c1
            = Inr (Some [], c1)"
    using set_twice_then_get [OF b, of example_hash "''add_numbers''" "''1''" example_inputs
                                example_outputs]
    by (auto simp: disk_fresh)
  ultimately show ?thesis
    using a b by blast
qed

text \<open>
  C8. On a store that does not hold the key, \<open>get\<close> returns \<open>None\<close> and raises nothing, from any
  state of the class and so also when no operation has run before; \<open>clear\<close> as the first
  operation raises nothing and leaves an empty store; and \<open>get\<close>, \<open>clear\<close> and \<open>set\<close> each
  leave the class initialised, with \<open>_cache\<close> bound.
\<close>

theorem get_and_clear_initialize_lazily:
  "(cache_ok c \<longrightarrow> disk c (calculate_cache_key H t ver m) = None \<longrightarrow>
      (\<exists>c'. LocalTaskCache_get H t ver m c = Inr (None, c') \<and> disk c' = disk c \<and>
            cache_bound c' \<and> initialized c')) \<and>
   (d (calculate_cache_key H t ver m) = None \<longrightarrow>
      LocalTaskCache_get H t ver m (fresh_cache d) =
        Inr (None, \<lparr>disk = d, cache_bound = True, initialized = True\<rparr>)) \<and>
   LocalTaskCache_clear (fresh_cache d) =
     Inr \<lparr>disk = Map.empty, cache_bound = True, initialized = True\<rparr> \<and>
   LocalTaskCache_set H t ver m v (fresh_cache d) =
     Inr \<lparr>disk = Cache_add (calculate_cache_key H t ver m) v d,
          cache_bound = True, initialized = True\<rparr>"
  by (simp add: get_result clear_result set_result cache_ok_fresh disk_fresh)

text \<open>The theorem over an empty store.\<close>

theorem get_and_clear_initialize_lazily_witness:
  "cache_ok (fresh_cache Map.empty :: string LocalTaskCache) \<and>
   disk (fresh_cache Map.empty :: string LocalTaskCache)
     (calculate_cache_key example_hash ''add_numbers'' ''1'' example_inputs) = None \<and>
   LocalTaskCache_get example_hash ''add_numbers'' ''1'' example_inputs (fresh_cache Map.empty) =
     Inr (None, \<lparr>disk = Map.empty, cache_bound = True, initialized = True\<rparr>) \<and>
   LocalTaskCache_clear (fresh_cache Map.empty :: string LocalTaskCache) =
     Inr \<lparr>disk = Map.empty, cache_bound = True, initialized = True\<rparr>"
  using get_and_clear_initialize_lazily
          [of "fresh_cache Map.empty" example_hash "''add_numbers''" "''1''" example_inputs
              Map.empty]
  by (simp add: cache_ok_fresh disk_fresh)

text \<open>
  C9. The task \<open>a-b\<close> at version \<open>c\<close> and the task \<open>a\<close> at version \<open>b-c\<close> have the same cache key
  for the same inputs, whatever the digest: what one of them stores, the other one gets.
\<close>

theorem cache_key_collision:
  "(''a-b'', ''c'') \<noteq> (''a'', ''b-c'') \<and>
   calculate_cache_key H ''a-b'' ''c'' m = calculate_cache_key H ''a'' ''b-c'' m \<and>
   (\<exists>c1 c2. LocalTaskCache_set H ''a-b'' ''c'' m v (fresh_cache Map.empty) = Inr c1 \<and>
            LocalTaskCache_get H ''a'' ''b-c'' m c1 = Inr (Some v, c2))"
proof -
  have k: "calculate_cache_key H ''a-b'' ''c'' m = calculate_cache_key H ''a'' ''b-c'' m"
    by (simp add: calculate_cache_key_def)
  let ?c1 = "\<lparr>disk = Cache_add (calculate_cache_key H ''a-b'' ''c'' m) v Map.empty,
                 cache_bound = True, initialized = True\<rparr>"
  have s: "LocalTaskCache_set H ''a-b'' ''c'' m v (fresh_cache Map.empty) = Inr ?c1"
    by (simp add: set_result [OF cache_ok_fresh] disk_fresh)
  have g: "LocalTaskCache_get H ''a'' ''b-c'' m ?c1 = Inr (Some v, ?c1)"
    by (simp add: get_result [OF cache_ok_opened] k [symmetric] Cache_add_def)
  from k s g show ?thesis by blast
qed

section \<open>Properties of the agent executor\<close>

subsection \<open>Events\<close>

lemma emit_emit: "emit es (emit fs w) = emit (fs @ es) w"
  by (simp add: emit_def)

lemma emit_fields:
  "clean_up_task (emit es w) = clean_up_task w"
  "sigint_handler (emit es w) = sigint_handler w"
  "heap (emit es w) = heap w"
  "files (emit es w) = files w"
  "events (emit es w) = events w @ es"
  by (simp_all add: emit_def)

lemma fetched_emit: "fetched (emit es w) = fetched w @ filter is_GetData es"
  by (simp add: fetched_def emit_def)

subsection \<open>\<open>_create\<close> and the dictionary of its caller\<close>

lemma update_at_key:
  "k \<notin> fst ` set pre \<Longrightarrow> AList.update k v (pre @ (k, u) # rest) = pre @ (k, v) # rest"
  by (induction pre) auto

lemma convert_inputs_alias:
  assumes "distinct (map fst (pre @ rest))"
      and "\<forall>(k, v) \<in> set rest. to_literal env k v = Inr (f k v)"
      and "heap w b = Some (pre @ rest)"
  shows "convert_inputs env b rest w =
           (Inr (), w\<lparr>heap := (heap w)(b \<mapsto> pre @ map (\<lambda>(k, v). (k, Lit (f k v))) rest)\<rparr>)"
  using assms
proof (induction rest arbitrary: pre w)
  case Nil
  then show ?case by (simp add: map_upd_triv)
next
  case (Cons p rest)
  obtain k v where p: "p = (k, v)" by (cases p)
  let ?w = "setitem b k (Lit (f k v)) w"
  have conv: "to_literal env k v = Inr (f k v)"
    using Cons.prems(2) p by simp
  have notin: "k \<notin> fst ` set pre"
    using Cons.prems(1) p by auto
  have h: "heap ?w b = Some ((pre @ [(k, Lit (f k v))]) @ rest)"
    using Cons.prems(3) p notin by (simp add: setitem_def dict_at_def update_at_key)
  have d: "distinct (map fst ((pre @ [(k, Lit (f k v))]) @ rest))"
    using Cons.prems(1) p by simp
  have r: "\<forall>(k, v) \<in> set rest. to_literal env k v = Inr (f k v)"
    using Cons.prems(2) by simp
  have eq: "?w\<lparr>heap := (heap ?w)(b \<mapsto> (pre @ [(k, Lit (f k v))])
                                       @ map (\<lambda>(k, v). (k, Lit (f k v))) rest)\<rparr>
          = w\<lparr>heap := (heap w)(b \<mapsto> pre @ map (\<lambda>(k, v). (k, Lit (f k v))) (p # rest))\<rparr>"
    by (simp add: setitem_def p)
  have "convert_inputs env b (p # rest) w = convert_inputs env b rest ?w"
    by (simp add: p conv)
  also have "\<dots> =
          (Inr (), ?w\<lparr>heap := (heap ?w)(b \<mapsto> (pre @ [(k, Lit (f k v))])
                                               @ map (\<lambda>(k, v). (k, Lit (f k v))) rest)\<rparr>)"
    by (rule Cons.IH [OF d r h])
  finally show ?case by (simp only: eq)
qed

lemma convert_inputs_events:
  "convert_inputs env b xs w = (r, w') \<Longrightarrow> events w' = events w"
proof (induction xs arbitrary: w)
  case Nil
  then show ?case by simp
next
  case (Cons p xs)
  obtain k v where p: "p = (k, v)" by (cases p)
  show ?case
  proof (cases "to_literal env k v")
    case (Inl e)
    with Cons.prems p show ?thesis by simp
  next
    case (Inr l)
    with Cons.prems p have "convert_inputs env b xs (setitem b k (Lit l) w) = (r, w')"
      by simp
    from Cons.IH [OF this] show ?thesis by (simp add: setitem_def)
  qed
qed

lemma Mixin_create_fetched:
  assumes "Mixin_create env inputs w = (r, w')"
  shows "fetched w' = fetched w"
proof (cases inputs)
  case None
  with assms show ?thesis
    by (auto simp: Mixin_create_def fetched_def new_dict_def split: prod.splits)
next
  case (Some a)
  obtain literals w1
    where l: "(if dict_at w a \<noteq> [] then (a, w) else new_dict w) = (literals, w1)"
    by (cases "if dict_at w a \<noteq> [] then (a, w) else new_dict w")
  then have e1: "events w1 = events w"
    by (auto simp: new_dict_def split: if_splits)
  obtain r2 w2 where c: "convert_inputs env literals (dict_at w1 a) w1 = (r2, w2)"
    by (cases "convert_inputs env literals (dict_at w1 a) w1")
  have e2: "events w2 = events w"
    using convert_inputs_events [OF c] e1 by simp
  show ?thesis
    using assms Some l c e2
    by (cases r2) (auto simp: Mixin_create_def fetched_def emit_def Let_def)
qed

subsection \<open>The handler of the interrupt\<close>






lemma signal_handler_fetched:
  "signal_handler env meta w = (r, w') \<Longrightarrow> fetched w' = fetched w"
  by (auto simp: signal_handler_def fetched_def emit_def split: if_splits option.splits)

lemma deliver_fetched: "deliver env k w = (r, w') \<Longrightarrow> fetched w' = fetched w"
proof (induction k arbitrary: w)
  case 0
  then show ?case by simp
next
  case (Suc k)
  then show ?case
    by (auto split: option.splits prod.splits sum.splits dest!: signal_handler_fetched)
qed

lemma signal_handler_heap:
  "signal_handler env meta w = (r, w') \<Longrightarrow> heap w' = heap w"
  by (auto simp: signal_handler_def emit_def split: if_splits option.splits)

lemma deliver_heap: "deliver env k w = (r, w') \<Longrightarrow> heap w' = heap w"
proof (induction k arbitrary: w)
  case 0
  then show ?case by simp
next
  case (Suc k)
  then show ?case
    by (auto split: option.splits prod.splits sum.splits dest!: signal_handler_heap)
qed



subsection \<open>The poll loop\<close>

lemma report_no_fetch: "filter is_GetData (report r) = []"
  by (simp add: report_def filter_empty_conv split: prod.splits)

lemma poll_terminal:
  "is_terminal_state env st \<Longrightarrow>
   poll env meta i st (Some r) w = Some (Inr r, emit (report r) w)"
  by (subst poll.simps) simp

lemma poll_step:
  assumes "\<not> is_terminal_state env st" and "sigints env i = 0"
      and "asynchronous env \<longrightarrow> clean_up_task w = None"
  shows "poll env meta i st res w =
           poll env meta (Suc i) (state (resource (get_response env i)))
             (Some (get_response env i)) (emit [Sleep 1, AgentGet meta] w)"
  using assms by (subst poll.simps) (simp add: emit_emit emit_fields Let_def)

text \<open>
  From its \<open>i\<close>-th round on, the loop goes round as long as the answers are not terminal and
  no interrupt arrives, and ends on the first terminal answer, the \<open>N\<close>-th.
\<close>

lemma poll_running_then_terminal:
  assumes run: "\<forall>j. i \<le> j \<and> j < N \<longrightarrow>
                  \<not> is_terminal_state env (state (resource (get_response env j)))"
      and fin: "is_terminal_state env (state (resource (get_response env N)))"
      and quiet: "\<forall>j. i \<le> j \<and> j \<le> N \<longrightarrow> sigints env j = 0"
      and clean: "asynchronous env \<longrightarrow> clean_up_task w = None"
      and st: "\<not> is_terminal_state env st"
      and le: "i \<le> N"
  shows "poll env meta i st res w =
           Some (Inr (get_response env N),
                 emit (concat (replicate (Suc N - i) [Sleep 1, AgentGet meta])
                         @ report (get_response env N)) w)"
  using assms
proof (induction "N - i" arbitrary: i st res w)
  case 0
  then have i: "i = N" by simp
  have "poll env meta i st res w =
          poll env meta (Suc N) (state (resource (get_response env N)))
            (Some (get_response env N)) (emit [Sleep 1, AgentGet meta] w)"
    using poll_step [of env st i w meta res] 0 i by simp
  also have "\<dots> = Some (Inr (get_response env N),
                 emit (report (get_response env N)) (emit [Sleep 1, AgentGet meta] w))"
    using 0 by (simp add: poll_terminal)
  finally show ?case by (simp add: i emit_emit)
next
  case (Suc n)
  then have lt: "i < N" by simp
  have step: "poll env meta i st res w =
          poll env meta (Suc i) (state (resource (get_response env i)))
            (Some (get_response env i)) (emit [Sleep 1, AgentGet meta] w)"
    using poll_step [of env st i w meta res] Suc.prems lt by simp
  have "poll env meta (Suc i) (state (resource (get_response env i)))
          (Some (get_response env i)) (emit [Sleep 1, AgentGet meta] w) =
        Some (Inr (get_response env N),
              emit (concat (replicate (Suc N - Suc i) [Sleep 1, AgentGet meta])
                      @ report (get_response env N))
                (emit [Sleep 1, AgentGet meta] w))"
  proof (rule Suc.hyps(1))
    show "n = N - Suc i" using Suc.hyps(2) by simp
    show "\<forall>j. Suc i \<le> j \<and> j < N \<longrightarrow>
            \<not> is_terminal_state env (state (resource (get_response env j)))"
      using Suc.prems(1) by simp
    show "is_terminal_state env (state (resource (get_response env N)))"
      by (rule Suc.prems(2))
    show "\<forall>j. Suc i \<le> j \<and> j \<le> N \<longrightarrow> sigints env j = 0"
      using Suc.prems(3) by simp
    show "asynchronous env \<longrightarrow> clean_up_task (emit [Sleep 1, AgentGet meta] w) = None"
      using Suc.prems(4) by (simp add: emit_fields)
    show "\<not> is_terminal_state env (state (resource (get_response env i)))"
      using Suc.prems(1) lt by simp
    show "Suc i \<le> N" using lt by simp
  qed
  with step show ?case
    using lt by (simp add: emit_emit Suc_diff_le)
qed

text \<open>The loop reads no remote data, however it ends.\<close>

lemma poll_fetched:
  assumes "poll env meta i st res w = Some y"
  shows "fetched (snd y) = fetched w"
proof (rule poll.raw_induct
         [where P = "\<lambda>env meta i st res w y. fetched (snd y) = fetched w", OF _ assms],
       goal_cases)
  case (1 poll' env meta i st res w y)
  note IH = 1(1) and body = 1(2)
  show ?case
  proof (cases "is_terminal_state env st")
    case True
    with body show ?thesis
      by (auto simp: fetched_emit report_no_fetch split: option.splits)
  next
    case False
    obtain r w1 where d: "deliver env (sigints env i) (emit [Sleep 1] w) = (r, w1)"
      by (cases "deliver env (sigints env i) (emit [Sleep 1] w)")
    have f1: "fetched w1 = fetched w"
      using deliver_fetched [OF d] by (simp add: fetched_emit)
    show ?thesis
    proof (cases r)
      case (Inl e)
      with body False d f1 show ?thesis by auto
    next
      case (Inr u)
      with body False d have
        "(\<exists>t. y = (Inl (SystemExit 1), emit [Await t] (emit [AgentGet meta] w1)))
         \<or> poll' env meta (Suc i) (state (resource (get_response env i)))
              (Some (get_response env i)) (emit [AgentGet meta] w1) = Some y"
        by (auto simp: Let_def split: if_splits option.splits)
      then show ?thesis
      proof
        assume "\<exists>t. y = (Inl (SystemExit 1), emit [Await t] (emit [AgentGet meta] w1))"
        then show ?thesis using f1 by (auto simp: fetched_emit)
      next
        assume "poll' env meta (Suc i) (state (resource (get_response env i)))
                  (Some (get_response env i)) (emit [AgentGet meta] w1) = Some y"
        from IH [OF this] show ?thesis using f1 by (simp add: fetched_emit)
      qed
    qed
  qed
qed

lemma Mixin_get_fetched: "Mixin_get env meta w = Some (r, w') \<Longrightarrow> fetched w' = fetched w"
  unfolding Mixin_get_def by (drule poll_fetched) simp

text \<open>Nor does the loop write into a dictionary.\<close>

lemma poll_heap:
  assumes "poll env meta i st res w = Some y"
  shows "heap (snd y) = heap w"
proof (rule poll.raw_induct
         [where P = "\<lambda>env meta i st res w y. heap (snd y) = heap w", OF _ assms],
       goal_cases)
  case (1 poll' env meta i st res w y)
  note IH = 1(1) and body = 1(2)
  show ?case
  proof (cases "is_terminal_state env st")
    case True
    with body show ?thesis
      by (auto simp: emit_fields split: option.splits)
  next
    case False
    obtain r w1 where d: "deliver env (sigints env i) (emit [Sleep 1] w) = (r, w1)"
      by (cases "deliver env (sigints env i) (emit [Sleep 1] w)")
    have f1: "heap w1 = heap w"
      using deliver_heap [OF d] by (simp add: emit_fields)
    show ?thesis
    proof (cases r)
      case (Inl e)
      with body False d f1 show ?thesis by auto
    next
      case (Inr u)
      with body False d have
        "(\<exists>t. y = (Inl (SystemExit 1), emit [Await t] (emit [AgentGet meta] w1)))
         \<or> poll' env meta (Suc i) (state (resource (get_response env i)))
              (Some (get_response env i)) (emit [AgentGet meta] w1) = Some y"
        by (auto simp: Let_def split: if_splits option.splits)
      then show ?thesis
      proof
        assume "\<exists>t. y = (Inl (SystemExit 1), emit [Await t] (emit [AgentGet meta] w1))"
        then show ?thesis using f1 by (auto simp: emit_fields)
      next
        assume "poll' env meta (Suc i) (state (resource (get_response env i)))
                  (Some (get_response env i)) (emit [AgentGet meta] w1) = Some y"
        from IH [OF this] show ?thesis using f1 by (simp add: emit_fields)
      qed
    qed
  qed
qed

lemma Mixin_get_heap: "Mixin_get env meta w = Some (r, w') \<Longrightarrow> heap w' = heap w"
  unfolding Mixin_get_def by (drule poll_heap) simp

text \<open>
  C4. Let \<open>RUNNING\<close> not be terminal and \<open>SUCCEEDED\<close> be terminal, let the agent answer the
  first \<open>N\<close> calls of \<open>get\<close> with \<open>RUNNING\<close> and the next with \<open>SUCCEEDED\<close>, and let no interrupt
  arrive (none during the \<open>N + 1\<close> sleeps, and no clean-up task at the start). Then \<open>_get\<close>
  returns, and it returns the answer to call \<open>N + 1\<close>; what it has done by then is \<open>N + 1\<close>
  times a sleep of one second followed by one \<open>get\<close>, and then the printing of the state and of
  the log links: no \<open>get\<close> follows the terminal answer.
\<close>

theorem get_polls_until_terminal:
  assumes "\<not> is_terminal_state env RUNNING" and "is_terminal_state env SUCCEEDED"
      and "\<forall>j<N. state (resource (get_response env j)) = RUNNING"
      and "state (resource (get_response env N)) = SUCCEEDED"
      and "\<forall>j\<le>N. sigints env j = 0"
      and "asynchronous env \<longrightarrow> clean_up_task w = None"
  shows "Mixin_get env meta w =
           Some (Inr (get_response env N),
                 emit (concat (replicate (Suc N) [Sleep 1, AgentGet meta])
                         @ report (get_response env N)) w)"
  unfolding Mixin_get_def
  using poll_running_then_terminal [of 0 N env w RUNNING meta None] assms by simp

text \<open>The theorem at \<open>N = 2\<close>: three sleeps, three polls.\<close>

theorem get_polls_until_terminal_witness:
  "\<not> is_terminal_state example_execution RUNNING \<and>
   is_terminal_state example_execution SUCCEEDED \<and>
   state (resource (get_response example_execution 0)) = RUNNING \<and>
   state (resource (get_response example_execution 1)) = RUNNING \<and>
   state (resource (get_response example_execution 2)) = SUCCEEDED \<and>
   sigints example_execution 0 = 0 \<and> sigints example_execution 1 = 0 \<and>
   sigints example_execution 2 = 0 \<and>
   clean_up_task example_created = None \<and>
   Mixin_get example_execution ''job'' example_created =
     Some (Inr (get_response example_execution 2), example_polled)"
proof -
  have 1: "\<not> is_terminal_state example_execution RUNNING"
    and 2: "is_terminal_state example_execution SUCCEEDED"
    and 3: "\<forall>j<2. state (resource (get_response example_execution j)) = RUNNING"
    and 4: "state (resource (get_response example_execution 2)) = SUCCEEDED"
    and 5: "\<forall>j\<le>2. sigints example_execution j = 0"
    by (simp_all add: example_execution_def)
  have 6: "asynchronous example_execution \<longrightarrow> clean_up_task example_created = None"
    by (simp add: example_created_def example_world_def)
  have r: "concat (replicate (Suc 2) [Sleep 1, AgentGet ''job''])
             @ report (get_response example_execution 2)
           = [Sleep 1, AgentGet ''job'', Sleep 1, AgentGet ''job'', Sleep 1, AgentGet ''job'',
              PrintState SUCCEEDED ''done'']"
    by (simp add: report_def example_execution_def numeral_2_eq_2)
  have 7: "state (resource (get_response example_execution 0)) = RUNNING"
    and 8: "state (resource (get_response example_execution 1)) = RUNNING"
    and 9: "sigints example_execution 0 = 0" "sigints example_execution 1 = 0"
           "sigints example_execution 2 = 0"
    and 10: "clean_up_task example_created = None"
    by (simp_all add: example_execution_def example_created_def example_world_def)
  have "Mixin_get example_execution ''job'' example_created =
          Some (Inr (get_response example_execution 2), example_polled)"
    using get_polls_until_terminal [OF 1 2 3 4 5 6, of "''job''"]
    by (simp only: r example_polled_def)
  with 1 2 4 7 8 9 10 show ?thesis
    by (intro conjI)
qed

subsection \<open>\<open>execute\<close>\<close>

lemma example_create:
  "Mixin_create example_execution (Some 0) example_world =
     (Inr \<lparr>create_resource = None, resource_meta = ''job''\<rparr>, example_created)"
  by (simp add: Mixin_create_def example_execution_def example_world_def example_created_def
        dict_at_def setitem_def emit_def Let_def)

lemma example_create_failed:
  "Mixin_create
     (example_execution
        \<lparr>create_response := \<lparr>create_resource = Some failed_resource, resource_meta = ''job''\<rparr>\<rparr>)
     (Some 0) example_world =
     (Inr \<lparr>create_resource = Some failed_resource, resource_meta = ''job''\<rparr>, example_created)"
  by (simp add: Mixin_create_def example_execution_def example_world_def example_created_def
        dict_at_def setitem_def emit_def Let_def)

lemma example_create_poll_failed:
  "Mixin_create (example_execution\<lparr>get_response := (\<lambda>i. \<lparr>resource = failed_resource\<rparr>)\<rparr>)
     (Some 0) example_world =
     (Inr \<lparr>create_resource = None, resource_meta = ''job''\<rparr>, example_created)"
  by (simp add: Mixin_create_def example_execution_def example_world_def example_created_def
        dict_at_def setitem_def emit_def Let_def)

lemma example_poll:
  "Mixin_get example_execution ''job'' example_created =
     Some (Inr \<lparr>resource = \<lparr>state = SUCCEEDED, outputs = [], message = ''done'',
                              log_links = []\<rparr>\<rparr>, example_polled)"
proof -
  have "Mixin_get example_execution ''job'' example_created =
          Some (Inr (get_response example_execution 2),
                emit (concat (replicate (Suc 2 - 0) [Sleep 1, AgentGet ''job''])
                        @ report (get_response example_execution 2)) example_created)"
    unfolding Mixin_get_def
    by (rule poll_running_then_terminal)
       (simp_all add: example_execution_def example_created_def example_world_def)
  then show ?thesis
    by (simp add: example_polled_def report_def example_execution_def numeral_2_eq_2)
qed

lemma example_poll_failed:
  "Mixin_get (example_execution\<lparr>get_response := (\<lambda>i. \<lparr>resource = failed_resource\<rparr>)\<rparr>)
     ''job'' example_created =
     Some (Inr \<lparr>resource = failed_resource\<rparr>,
           emit [Sleep 1, AgentGet ''job'', PrintState (OtherState 1) ''failed''] example_created)"
proof -
  let ?env = "example_execution\<lparr>get_response := (\<lambda>i. \<lparr>resource = failed_resource\<rparr>)\<rparr>"
  have "Mixin_get ?env ''job'' example_created =
          Some (Inr (get_response ?env 0),
                emit (concat (replicate (Suc 0 - 0) [Sleep 1, AgentGet ''job''])
                        @ report (get_response ?env 0)) example_created)"
    unfolding Mixin_get_def
    by (rule poll_running_then_terminal)
       (simp_all add: example_execution_def example_created_def example_world_def
          failed_resource_def)
  then show ?thesis
    by (simp add: report_def failed_resource_def)
qed

lemma Mixin_execute_heap:
  assumes "Mixin_create env (Some kwargs) w = (Inr res, w1)"
      and "Mixin_execute env kwargs w = Some (r, w')"
  shows "heap w' = heap w1"
proof (cases "create_resource res")
  case (Some x)
  with assms show ?thesis
    by (auto simp: Mixin_execute_def split: if_splits)
next
  case None
  show ?thesis
  proof (cases "Mixin_get env (resource_meta res) w1")
    case None
    with assms \<open>create_resource res = None\<close> show ?thesis
      by (simp add: Mixin_execute_def)
  next
    case (Some y)
    obtain r2 w2 where y: "y = (r2, w2)" by (cases y)
    have h: "heap w2 = heap w1"
      using Some y by (auto dest: Mixin_get_heap)
    show ?thesis
      using assms \<open>create_resource res = None\<close> Some y h
      by (cases r2)
         (auto simp: Mixin_execute_def Let_def emit_fields split: if_splits option.splits)
  qed
qed

lemma example_execute:
  "Mixin_execute example_execution 0 example_world =
     Some (Inr [(''o0'', 7), (''o1'', 8)],
           (emit [GetData ''s3://bucket/x/output/outputs.pb'' ''/tmp/out''] example_polled)
             \<lparr>files := (files example_polled)(''/tmp/out'' \<mapsto> [(''o0'', 7), (''o1'', 8)])\<rparr>)"
proof -
  have s: "files example_polled ''s3://bucket/x/output/outputs.pb''
             = Some [(''o0'', 7), (''o1'', 8)]"
    by (simp add: example_polled_def example_created_def example_world_def emit_def)
  have e: "interface_outputs example_execution \<noteq> []"
          "output_prefix example_execution @ ''/output/outputs.pb''
             = ''s3://bucket/x/output/outputs.pb''"
          "local_outputs_file example_execution = ''/tmp/out''"
    by (simp_all add: example_execution_def)
  show ?thesis
    by (simp add: Mixin_execute_def example_create example_poll Let_def emit_fields s e)
qed

text \<open>
  C5. When \<open>create\<close> answers with a resource whose state is not \<open>SUCCEEDED\<close>, and when the poll
  loop returns an answer whose state is not \<open>SUCCEEDED\<close>, \<open>execute\<close> raises
  \<open>FlyteUserException\<close> with the name of the task in its message; it does nothing after
  \<open>_create\<close>, or after \<open>_get\<close>, and up to there no remote data has been read.
\<close>

theorem failure_raises_without_fetch:
  assumes "Mixin_create env (Some kwargs) w = (Inr res, w1)"
  shows "(\<forall>r. create_resource res = Some r \<and> state r \<noteq> SUCCEEDED \<longrightarrow>
            Mixin_execute env kwargs w =
              Some (Inl (FlyteUserException (''Failed to run the task '' @ entity_name env)), w1) \<and>
            fetched w1 = fetched w) \<and>
         (\<forall>res2 w2. create_resource res = None \<and>
            Mixin_get env (resource_meta res) w1 = Some (Inr res2, w2) \<and>
            state (resource res2) \<noteq> SUCCEEDED \<longrightarrow>
            Mixin_execute env kwargs w =
              Some (Inl (FlyteUserException (''Failed to run the task '' @ entity_name env)), w2) \<and>
            fetched w2 = fetched w)"
proof (intro conjI allI impI)
  fix r
  assume "create_resource res = Some r \<and> state r \<noteq> SUCCEEDED"
  then show "Mixin_execute env kwargs w =
              Some (Inl (FlyteUserException (''Failed to run the task '' @ entity_name env)), w1)"
    using assms by (simp add: Mixin_execute_def)
next
  fix r
  show "fetched w1 = fetched w"
    using assms by (rule Mixin_create_fetched)
next
  fix res2 w2
  assume "create_resource res = None \<and>
            Mixin_get env (resource_meta res) w1 = Some (Inr res2, w2) \<and>
            state (resource res2) \<noteq> SUCCEEDED"
  then show "Mixin_execute env kwargs w =
              Some (Inl (FlyteUserException (''Failed to run the task '' @ entity_name env)), w2)"
    using assms by (simp add: Mixin_execute_def)
next
  fix res2 w2
  assume "create_resource res = None \<and>
            Mixin_get env (resource_meta res) w1 = Some (Inr res2, w2) \<and>
            state (resource res2) \<noteq> SUCCEEDED"
  then have "fetched w2 = fetched w1"
    by (auto dest: Mixin_get_fetched)
  then show "fetched w2 = fetched w"
    using Mixin_create_fetched [OF assms] by simp
qed

text \<open>
  The theorem at an agent that fails at \<open>create\<close>, with an output literal in its answer, and
  at an agent that fails at the first poll.
\<close>

theorem failure_raises_without_fetch_witness:
  "(Mixin_create
      (example_execution
         \<lparr>create_response := \<lparr>create_resource = Some failed_resource, resource_meta = ''job''\<rparr>\<rparr>)
      (Some 0) example_world =
      (Inr \<lparr>create_resource = Some failed_resource, resource_meta = ''job''\<rparr>, example_created) \<and>
    state failed_resource \<noteq> SUCCEEDED \<and>
    Mixin_execute
      (example_execution
         \<lparr>create_response := \<lparr>create_resource = Some failed_resource, resource_meta = ''job''\<rparr>\<rparr>)
      0 example_world =
      Some (Inl (FlyteUserException ''Failed to run the task add_numbers''), example_created) \<and>
    fetched example_created = fetched example_world) \<and>
   (Mixin_create (example_execution\<lparr>get_response := (\<lambda>i. \<lparr>resource = failed_resource\<rparr>)\<rparr>)
      (Some 0) example_world =
      (Inr \<lparr>create_resource = None, resource_meta = ''job''\<rparr>, example_created) \<and>
    Mixin_get (example_execution\<lparr>get_response := (\<lambda>i. \<lparr>resource = failed_resource\<rparr>)\<rparr>)
      ''job'' example_created =
      Some (Inr \<lparr>resource = failed_resource\<rparr>,
            emit [Sleep 1, AgentGet ''job'', PrintState (OtherState 1) ''failed''] example_created) \<and>
    Mixin_execute (example_execution\<lparr>get_response := (\<lambda>i. \<lparr>resource = failed_resource\<rparr>)\<rparr>)
      0 example_world =
      Some (Inl (FlyteUserException ''Failed to run the task add_numbers''),
            emit [Sleep 1, AgentGet ''job'', PrintState (OtherState 1) ''failed''] example_created) \<and>
    fetched (emit [Sleep 1, AgentGet ''job'', PrintState (OtherState 1) ''failed''] example_created)
      = fetched example_world)"
proof -
  have f: "state failed_resource \<noteq> SUCCEEDED"
    by (simp add: failed_resource_def)
  have n: "entity_name example_execution = ''add_numbers''"
    by (simp add: example_execution_def)
  have a: "Mixin_execute
      (example_execution
         \<lparr>create_response := \<lparr>create_resource = Some failed_resource, resource_meta = ''job''\<rparr>\<rparr>)
      0 example_world =
      Some (Inl (FlyteUserException ''Failed to run the task add_numbers''), example_created) \<and>
    fetched example_created = fetched example_world"
    using failure_raises_without_fetch [OF example_create_failed] f n by simp
  have b: "Mixin_execute (example_execution\<lparr>get_response := (\<lambda>i. \<lparr>resource = failed_resource\<rparr>)\<rparr>)
      0 example_world =
      Some (Inl (FlyteUserException ''Failed to run the task add_numbers''),
            emit [Sleep 1, AgentGet ''job'', PrintState (OtherState 1) ''failed''] example_created) \<and>
    fetched (emit [Sleep 1, AgentGet ''job'', PrintState (OtherState 1) ''failed''] example_created)
      = fetched example_world"
    using failure_raises_without_fetch [OF example_create_poll_failed] example_poll_failed f n
    by simp
  show ?thesis
    using a b f example_create_failed example_create_poll_failed example_poll_failed
    by (intro conjI) simp_all
qed

text \<open>
  C2. When \<open>create\<close> answers without a resource, the poll loop returns an answer in state
  \<open>SUCCEEDED\<close> with no output literals, and the interface of the task declares an output,
  \<open>execute\<close> reads the file \<open>output/outputs.pb\<close> under the output prefix that it gave to
  \<open>create\<close>, and returns the literal map of that file; it raises if there is no such file. It
  does not return the empty outputs of the answer.
\<close>

theorem outputs_read_from_staging_path:
  assumes "Mixin_create env (Some kwargs) w = (Inr res, w1)"
      and "create_resource res = None"
      and "Mixin_get env (resource_meta res) w1 = Some (Inr res2, w2)"
      and "state (resource res2) = SUCCEEDED"
      and "interface_outputs env \<noteq> []"
      and "outputs (resource res2) = []"
  shows "Mixin_execute env kwargs w =
           (case files w2 (output_prefix env @ ''/output/outputs.pb'') of
              None \<Rightarrow>
                Some (Inl (FileNotFoundError (output_prefix env @ ''/output/outputs.pb'')),
                      emit [GetData (output_prefix env @ ''/output/outputs.pb'')
                              (local_outputs_file env)] w2)
            | Some staged \<Rightarrow>
                Some (Inr staged,
                      (emit [GetData (output_prefix env @ ''/output/outputs.pb'')
                               (local_outputs_file env)] w2)
                        \<lparr>files := (files w2)(local_outputs_file env \<mapsto> staged)\<rparr>))"
  using assms by (simp add: Mixin_execute_def Let_def emit_fields split: option.splits)

text \<open>
  The theorem at the example: two outputs declared, none in the answer, two at the staging
  path.
\<close>

theorem outputs_read_from_staging_path_witness:
  "Mixin_create example_execution (Some 0) example_world =
     (Inr \<lparr>create_resource = None, resource_meta = ''job''\<rparr>, example_created) \<and>
   Mixin_get example_execution ''job'' example_created =
     Some (Inr \<lparr>resource = \<lparr>state = SUCCEEDED, outputs = [], message = ''done'',
                              log_links = []\<rparr>\<rparr>, example_polled) \<and>
   interface_outputs example_execution \<noteq> [] \<and>
   Mixin_execute example_execution 0 example_world =
     Some (Inr [(''o0'', 7), (''o1'', 8)],
           (emit [GetData ''s3://bucket/x/output/outputs.pb'' ''/tmp/out''] example_polled)
             \<lparr>files := (files example_polled)(''/tmp/out'' \<mapsto> [(''o0'', 7), (''o1'', 8)])\<rparr>)"
proof -
  have i: "interface_outputs example_execution \<noteq> []"
    by (simp add: example_execution_def)
  have p: "output_prefix example_execution @ ''/output/outputs.pb''
             = ''s3://bucket/x/output/outputs.pb''"
    and l: "local_outputs_file example_execution = ''/tmp/out''"
    by (simp_all add: example_execution_def)
  have s: "files example_polled ''s3://bucket/x/output/outputs.pb''
             = Some [(''o0'', 7), (''o1'', 8)]"
    by (simp add: example_polled_def example_created_def example_world_def emit_def)
  have "Mixin_execute example_execution 0 example_world =
     Some (Inr [(''o0'', 7), (''o1'', 8)],
           (emit [GetData ''s3://bucket/x/output/outputs.pb'' ''/tmp/out''] example_polled)
             \<lparr>files := (files example_polled)(''/tmp/out'' \<mapsto> [(''o0'', 7), (''o1'', 8)])\<rparr>)"
    using outputs_read_from_staging_path [OF example_create _ _ _ i, of _ example_polled]
      example_poll
    by (simp add: p l s)
  with example_create example_poll i show ?thesis
    by simp
qed

text \<open>
  C10. When the dictionary passed as \<open>inputs\<close> is not empty and every value converts, the
  dictionary at that very address holds, after \<open>_create\<close>, the literal of each value under its
  key, in place of the value that the caller stored: \<open>literals\<close> is bound to the address of
  \<open>inputs\<close>. \<open>execute\<close> passes the dictionary of its keyword arguments, and this is what that
  dictionary holds when \<open>execute\<close> returns or raises.
\<close>

theorem create_mutates_inputs:
  assumes "heap w a = Some d" and "d \<noteq> []" and "distinct (map fst d)"
      and "\<forall>(k, v) \<in> set d. to_literal env k v = Inr (f k v)"
  shows "fst (Mixin_create env (Some a) w) = Inr (create_response env) \<and>
         heap (snd (Mixin_create env (Some a) w)) a =
           Some (map (\<lambda>(k, v). (k, Lit (f k v))) d) \<and>
         (\<forall>r w'. Mixin_execute env a w = Some (r, w') \<longrightarrow>
            heap w' a = Some (map (\<lambda>(k, v). (k, Lit (f k v))) d))"
proof -
  have c: "convert_inputs env a d w =
             (Inr (), w\<lparr>heap := (heap w)(a \<mapsto> map (\<lambda>(k, v). (k, Lit (f k v))) d)\<rparr>)"
    using convert_inputs_alias [of "[]" d env f w a] assms by simp
  have 1: "fst (Mixin_create env (Some a) w) = Inr (create_response env)"
    and 2: "heap (snd (Mixin_create env (Some a) w)) a =
           Some (map (\<lambda>(k, v). (k, Lit (f k v))) d)"
    using assms(1,2)
    by (simp_all add: Mixin_create_def dict_at_def c Let_def emit_def)
  have 3: "heap w' a = Some (map (\<lambda>(k, v). (k, Lit (f k v))) d)"
    if "Mixin_execute env a w = Some (r, w')" for r w'
  proof -
    have "Mixin_create env (Some a) w =
            (Inr (create_response env), snd (Mixin_create env (Some a) w))"
      using 1 by (simp add: prod_eq_iff)
    from Mixin_execute_heap [OF this that] 2 show ?thesis by simp
  qed
  from 1 2 3 show ?thesis by blast
qed

text \<open>The theorem at the keyword arguments \<open>x = 3, y = 4\<close> of the example.\<close>

theorem create_mutates_inputs_witness:
  "heap example_world 0 = Some [(''x'', Native 3), (''y'', Native 4)] \<and>
   [(''x'', Native 3), (''y'', Native (4::int))] \<noteq> ([] :: (string \<times> (int, int) pyval) list) \<and>
   distinct (map fst [(''x'', Native 3), (''y'', Native (4::int)) :: string \<times> (int, int) pyval]) \<and>
   to_literal example_execution ''x'' (Native 3) = Inr 3 \<and>
   to_literal example_execution ''y'' (Native 4) = Inr 4 \<and>
   heap (snd (Mixin_create example_execution (Some 0) example_world)) 0 =
     Some [(''x'', Lit 3), (''y'', Lit 4)] \<and>
   Mixin_execute example_execution 0 example_world =
     Some (Inr [(''o0'', 7), (''o1'', 8)],
           (emit [GetData ''s3://bucket/x/output/outputs.pb'' ''/tmp/out''] example_polled)
             \<lparr>files := (files example_polled)(''/tmp/out'' \<mapsto> [(''o0'', 7), (''o1'', 8)])\<rparr>) \<and>
   heap ((emit [GetData ''s3://bucket/x/output/outputs.pb'' ''/tmp/out''] example_polled)
           \<lparr>files := (files example_polled)(''/tmp/out'' \<mapsto> [(''o0'', 7), (''o1'', 8)])\<rparr>) 0 =
     Some [(''x'', Lit 3), (''y'', Lit 4)]"
proof -
  have 1: "heap example_world 0 = Some [(''x'', Native 3), (''y'', Native 4)]"
    by (simp add: example_world_def)
  have 2: "[(''x'', Native 3), (''y'', Native (4::int))] \<noteq> ([] :: (string \<times> (int, int) pyval) list)"
    by simp
  have 3: "distinct (map fst [(''x'', Native 3), (''y'', Native (4::int)) :: string \<times> (int, int) pyval])"
    by simp
  have 4: "\<forall>(k, v) \<in> set [(''x'', Native 3), (''y'', Native 4)].
      to_literal example_execution k v = Inr (case v of Native n \<Rightarrow> n | Lit l \<Rightarrow> l)"
    by (simp add: example_execution_def)
  have 5: "to_literal example_execution ''x'' (Native 3) = Inr 3"
    and 6: "to_literal example_execution ''y'' (Native 4) = Inr 4"
    by (simp_all add: example_execution_def)
  note T = create_mutates_inputs [OF 1 2 3 4]
  have 7: "heap (snd (Mixin_create example_execution (Some 0) example_world)) 0 =
          Some [(''x'', Lit 3), (''y'', Lit 4)]"
    using T by simp
  have 8: "heap ((emit [GetData ''s3://bucket/x/output/outputs.pb'' ''/tmp/out''] example_polled)
           \<lparr>files := (files example_polled)(''/tmp/out'' \<mapsto> [(''o0'', 7), (''o1'', 8)])\<rparr>) 0 =
     Some [(''x'', Lit 3), (''y'', Lit 4)]"
    using T example_execute by simp
  from 1 2 3 5 6 7 example_execute 8 show ?thesis
    by (intro conjI)
qed

end
